theory Spec2Isabelle
  imports Complex_Main
begin

section \<open>JavaScript values\<close>

text \<open>
  The front end is JavaScript: an object property may be absent, and the operators
  \<open>!\<close>, \<open>||\<close> and \<open>&&\<close> test truthiness. The values that reach the code verified here are
  \<open>undefined\<close>, \<open>null\<close>, booleans, numbers and strings. Numbers are modelled as integers
  (the settings are lengths in words) and strings as lists of 8-bit code units.
\<close>

datatype jsval = JUndefined | JNull | JBool bool | JNum int | JStr string

fun truthy :: "jsval \<Rightarrow> bool" where
  "truthy JUndefined = False"
| "truthy JNull = False"
| "truthy (JBool b) = b"
| "truthy (JNum n) = (n \<noteq> 0)"
| "truthy (JStr s) = (s \<noteq> [])"

text \<open>\<open>a || b\<close>: the left operand when it is truthy, the right one otherwise.\<close>

definition js_or :: "jsval \<Rightarrow> jsval \<Rightarrow> jsval" where
  "js_or a b = (if truthy a then a else b)"

text \<open>
  An object whose keys are not fixed by the code is a finite map from property names to
  values; reading an absent property gives \<open>undefined\<close>.
\<close>

type_synonym jsobject = "string \<rightharpoonup> jsval"

definition get_prop :: "jsobject \<Rightarrow> string \<Rightarrow> jsval" where
  "get_prop obj k = (case obj k of None \<Rightarrow> JUndefined | Some v \<Rightarrow> v)"

text \<open>
  A string that may be \<open>undefined\<close> (a property of a response that the back end may
  omit) is a \<open>string option\<close>. It is truthy when present and non-empty, and string
  concatenation writes an absent one as the text \<open>undefined\<close>.
\<close>

definition truthy_str :: "string option \<Rightarrow> bool" where
  "truthy_str v = (case v of None \<Rightarrow> False | Some s \<Rightarrow> s \<noteq> [])"

definition to_string :: "string option \<Rightarrow> string" where
  "to_string v = (case v of None \<Rightarrow> ''undefined'' | Some s \<Rightarrow> s)"

section \<open>The application store (store/useAppStore.js)\<close>

text \<open>
  The state of the store, field by field. Of an uploaded file and of a summary result,
  which the back end returns, only the properties that the code verified here reads are
  fields of the record.
\<close>

record js_file =
  file_name :: string
  file_size :: nat

record input_content =
  text_value :: string
  files :: "js_file list"
  url :: string
  youtubeUrl :: string

record summary_metadata =
  original_content :: "string option"

record summary_result =
  summary :: "string option"
  metadata :: "summary_metadata option"

record qa_interaction =
  qa_id :: int
  question :: string
  answer :: string
  confidence :: real
  supportingText :: string
  timestamp :: string

record app_store =
  isLoading :: bool
  currentStep :: string
  activeTab :: string
  inputContent :: input_content
  summaryResults :: "summary_result option"
  summaryHistory :: "summary_result option list"
  qaHistory :: "qa_interaction list"
  currentQuestion :: string
  summarySettings :: jsobject

text \<open>The state the store is created with.\<close>

definition initial_settings :: jsobject where
  "initial_settings =
     [''maxLength'' \<mapsto> JNum 1200,
      ''minLength'' \<mapsto> JNum 300,
      ''summaryType'' \<mapsto> JStr ''comprehensive'',
      ''summaryStyle'' \<mapsto> JStr ''comprehensive'',
      ''customPrompt'' \<mapsto> JStr '''',
      ''language'' \<mapsto> JStr ''en'']"

definition initial_store :: app_store where
  "initial_store =
     \<lparr> isLoading = False,
       currentStep = ''input'',
       activeTab = ''text'',
       inputContent = \<lparr> text_value = '''', files = [], url = '''', youtubeUrl = '''' \<rparr>,
       summaryResults = None,
       summaryHistory = [],
       qaHistory = [],
       currentQuestion = '''',
       summarySettings = initial_settings \<rparr>"

subsection \<open>Actions\<close>

definition setLoading :: "bool \<Rightarrow> app_store \<Rightarrow> app_store" where
  "setLoading loading s = s\<lparr>isLoading := loading\<rparr>"

definition setCurrentStep :: "string \<Rightarrow> app_store \<Rightarrow> app_store" where
  "setCurrentStep step s = s\<lparr>currentStep := step\<rparr>"

definition setCurrentQuestion :: "string \<Rightarrow> app_store \<Rightarrow> app_store" where
  "setCurrentQuestion q s = s\<lparr>currentQuestion := q\<rparr>"

text \<open>
  \<open>setSummaryResults\<close>: \<open>[results, ...state.summaryHistory.slice(0, 9)]\<close>. The argument is
  whatever the caller passes, \<open>null\<close> included.
\<close>

definition setSummaryResults :: "summary_result option \<Rightarrow> app_store \<Rightarrow> app_store" where
  "setSummaryResults results s =
     s\<lparr>summaryResults := results,
       summaryHistory := results # take 9 (summaryHistory s)\<rparr>"

definition clearSummaryResults :: "app_store \<Rightarrow> app_store" where
  "clearSummaryResults s = s\<lparr>summaryResults := None\<rparr>"

text \<open>
  \<open>addQAInteraction\<close> reads the clock twice: \<open>Date.now()\<close> for the id and
  \<open>new Date().toISOString()\<close> for the timestamp. Both readings are arguments here.
\<close>

record clock =
  now_ms :: int
  now_iso :: string

definition addQAInteraction ::
  "clock \<Rightarrow> string \<Rightarrow> string \<Rightarrow> real \<Rightarrow> string \<Rightarrow> app_store \<Rightarrow> app_store" where
  "addQAInteraction clk q a c st s =
     s\<lparr>qaHistory :=
         \<lparr> qa_id = now_ms clk, question = q, answer = a, confidence = c,
           supportingText = st, timestamp = now_iso clk \<rparr> # qaHistory s\<rparr>"

definition clearInputContent :: "app_store \<Rightarrow> app_store" where
  "clearInputContent s =
     s\<lparr>inputContent := \<lparr> text_value = '''', files = [], url = '''', youtubeUrl = '''' \<rparr>\<rparr>"

definition clearQAHistory :: "app_store \<Rightarrow> app_store" where
  "clearQAHistory s = s\<lparr>qaHistory := []\<rparr>"

text \<open>\<open>updateSummarySettings\<close>: \<open>{...state.summarySettings, ...settings}\<close>.\<close>

definition updateSummarySettings :: "jsobject \<Rightarrow> app_store \<Rightarrow> app_store" where
  "updateSummarySettings settings s =
     s\<lparr>summarySettings := summarySettings s ++ settings\<rparr>"

subsection \<open>Computed getters\<close>

text \<open>
  \<open>String.prototype.trim\<close> removes white space and line terminators from both ends. Among
  8-bit code units these are tab, line feed, vertical tab, form feed, carriage return,
  space and the no-break space.
\<close>

definition is_js_space :: "char \<Rightarrow> bool" where
  "is_js_space c = (of_char c \<in> {9, 10, 11, 12, 13, 32, 160 :: nat})"

definition trim :: "string \<Rightarrow> string" where
  "trim s = rev (dropWhile is_js_space (rev (dropWhile is_js_space s)))"

text \<open>
  \<open>isYouTubeUrl\<close> tests the regular expression
  \<^verbatim>\<open>/^(https?:\/\/)?(www\.)?(youtube\.com|youtu\.be)\/.+/\<close>.
  \<open>strip_any ps ss\<close> lists what is left of the strings \<open>ss\<close> after one of the prefixes
  \<open>ps\<close>, in every way a backtracking matcher can choose; an optional group has the empty
  prefix among its choices. The final \<open>.+\<close> needs one more character that is not a line
  terminator.
\<close>

definition strip_any :: "string list \<Rightarrow> string list \<Rightarrow> string list" where
  "strip_any ps ss =
     concat (map (\<lambda>s. map (\<lambda>p. drop (length p) s) (filter (\<lambda>p. take (length p) s = p) ps)) ss)"

definition is_line_terminator :: "char \<Rightarrow> bool" where
  "is_line_terminator c = (of_char c \<in> {10, 13 :: nat})"

definition isYouTubeUrl :: "string \<Rightarrow> bool" where
  "isYouTubeUrl u =
     list_ex (\<lambda>r. case r of [] \<Rightarrow> False | c # _ \<Rightarrow> \<not> is_line_terminator c)
       (strip_any [''/'']
         (strip_any [''youtube.com'', ''youtu.be'']
           (strip_any ['''', ''www.'']
             (strip_any ['''', ''http://'', ''https://''] [u]))))"

text \<open>
  An error of the HTTP client, as the code reads it: \<open>error.response\<close> (absent when no
  response came) with its \<open>status\<close> and its \<open>data\<close>, whether \<open>error.request\<close> is set,
  and \<open>error.code\<close>. The data of an error response are \<open>null\<close> or a body whose
  \<open>detail\<close> may be absent.
\<close>

datatype response_data = NullData | Data "string option"

record http_response =
  status :: nat
  response_data :: response_data

record axios_error =
  error_response :: "http_response option"
  has_request :: bool
  code :: string

datatype form_entry = FileEntry js_file | FieldEntry jsval

record qa_request =
  rq_question :: string
  rq_context :: string
  conversation_history :: "(string \<times> string) list"
  rq_language :: string

datatype request_body =
    Json jsobject
  | Form "(string \<times> form_entry) list"
  | JsonQA qa_request
  | JsonBatchQA "string list" string string

text \<open>
  The configuration a request is sent with: \<open>axios.create\<close> fixes the defaults of the
  client (a timeout of 600000 ms, JSON content), and the configuration object of a call
  overrides them field by field. A request is \<open>apiClient.post(url, data, config)\<close> or
  \<open>apiClient.get(url, config)\<close> with its query parameters.
\<close>

record request_config =
  timeout_ms :: nat
  content_type :: string
  response_type :: "string option"

definition client_defaults :: request_config where
  "client_defaults =
     \<lparr> timeout_ms = 600000, content_type = ''application/json'', response_type = None \<rparr>"

datatype api_request =
    Post string request_body request_config
  | Get string jsobject request_config

fun request_timeout :: "api_request \<Rightarrow> nat" where
  "request_timeout (Post _ _ cfg) = timeout_ms cfg"
| "request_timeout (Get _ _ cfg) = timeout_ms cfg"

record qa_response =
  rs_answer :: string
  rs_confidence :: real
  rs_supporting_text :: string

text \<open>
  The environment of the front end: the browser's URL parser (\<open>isValidUrl\<close> answers
  whether \<open>new URL(string)\<close> returns instead of throwing) and the back end behind the HTTP
  client, which answers a request with an error or with the data of a successful
  response. The data of a summarization response are whatever the body holds: \<open>null\<close>
  or an object.
\<close>

record env =
  isValidUrl :: "string \<Rightarrow> bool"
  summarize_backend :: "api_request \<Rightarrow> axios_error + summary_result option"
  qa_backend :: "api_request \<Rightarrow> axios_error + qa_response"

definition hasValidInput :: "env \<Rightarrow> app_store \<Rightarrow> bool" where
  "hasValidInput e s =
     (let ic = inputContent s; tab = activeTab s in
      if tab = ''text'' then length (trim (text_value ic)) > 10
      else if tab = ''files'' then length (files ic) > 0
      else if tab = ''url'' then length (trim (url ic)) > 0 \<and> isValidUrl e (url ic)
      else if tab = ''youtube'' then
        length (trim (youtubeUrl ic)) > 0 \<and> isYouTubeUrl (youtubeUrl ic)
      else False)"

text \<open>
  \<open>getQAContext\<close>: the empty string without a summary result; otherwise the summary,
  or, when the metadata carries a truthy \<open>original_content\<close>, that content followed by
  the summary under a heading.
\<close>

definition getQAContext :: "app_store \<Rightarrow> string option" where
  "getQAContext s =
     (case summaryResults s of
        None \<Rightarrow> Some ''''
      | Some r \<Rightarrow>
          (case metadata r of
             None \<Rightarrow> summary r
           | Some m \<Rightarrow>
               if truthy_str (original_content m)
               then Some (to_string (original_content m)
                          @ [CHR 0x0A, CHR 0x0A] @ ''Summary: '' @ to_string (summary r))
               else summary r))"

section \<open>The API client (api/client.js)\<close>

text \<open>
  What a handler does besides changing state is recorded as a list of events, oldest
  first: the toasts shown, the console messages and the HTTP requests issued.
\<close>

datatype event =
    ToastError string
  | ToastSuccess string
  | Toast string
  | ConsoleError string
  | Request api_request

text \<open>
  What a \<open>catch\<close> receives: an error of the HTTP client, a \<open>TypeError\<close> of the
  runtime, or a plain \<open>Error\<close>.
\<close>

datatype thrown = AxiosError axios_error | TypeError | PlainError string

text \<open>
  The response interceptor's error branch: one toast, then the error is rethrown. For a
  400 response the toast reads \<open>data.detail\<close>; when the data are \<open>null\<close> that read
  throws a \<open>TypeError\<close> before any toast, and the \<open>TypeError\<close> is what the caller gets.
\<close>

definition response_interceptor :: "axios_error \<Rightarrow> event list \<times> thrown" where
  "response_interceptor err =
     (case error_response err of
        Some r \<Rightarrow>
          if status r = 400 then
            (case response_data r of
               NullData \<Rightarrow> ([], TypeError)
             | Data detail \<Rightarrow>
                 ([ToastError (if truthy_str detail then to_string detail
                               else ''Invalid request'')],
                  AxiosError err))
          else if status r = 404 then ([ToastError ''Service not found''], AxiosError err)
          else if status r = 422 then ([ToastError ''Validation error''], AxiosError err)
          else if status r = 500 then
            ([ToastError ''Server error. Please try again later.''], AxiosError err)
          else ([ToastError ''An unexpected error occurred''], AxiosError err)
      | None \<Rightarrow>
          if has_request err then
            (if code err = ''ECONNABORTED'' then
               ([ToastError ''Request timeout. The operation is taking longer than expected. Please try again.''],
                AxiosError err)
             else
               ([ToastError ''Network error. Please check your connection and ensure the backend server is running.''],
                AxiosError err))
          else ([ToastError ''Request failed''], AxiosError err))"

text \<open>
  A call through the client (\<open>apiClient.post\<close> or \<open>apiClient.get\<close>): the request is
  issued; a failure passes the interceptor and is thrown, a success returns the
  response.
\<close>

definition apiClient_send ::
  "(api_request \<Rightarrow> axios_error + 'a) \<Rightarrow> api_request \<Rightarrow> event list \<times> (thrown + 'a)" where
  "apiClient_send backend req =
     (case backend req of
        Inl err \<Rightarrow> (Request req # fst (response_interceptor err),
                    Inl (snd (response_interceptor err)))
      | Inr data \<Rightarrow> ([Request req], Inr data))"

subsection \<open>summarizeAPI\<close>

definition summarizeText :: "jsobject \<Rightarrow> api_request" where
  "summarizeText data = Post ''/summarize/text'' (Json data) client_defaults"

definition summarizeUrl :: "jsobject \<Rightarrow> api_request" where
  "summarizeUrl data = Post ''/summarize/url'' (Json data) client_defaults"

definition summarizeYoutube :: "jsobject \<Rightarrow> api_request" where
  "summarizeYoutube data = Post ''/summarize/youtube'' (Json data) client_defaults"

definition summarizeDocument :: "js_file list \<Rightarrow> jsobject \<Rightarrow> api_request" where
  "summarizeDocument fs options =
     Post ''/summarize/document''
       (Form (map (\<lambda>f. (''files'', FileEntry f)) fs
              @ [(''max_length'', FieldEntry (js_or (get_prop options ''maxLength'') (JNum 1000))),
                 (''min_length'', FieldEntry (js_or (get_prop options ''minLength'') (JNum 200))),
                 (''summary_type'',
                    FieldEntry (js_or (get_prop options ''summaryType'') (JStr ''comprehensive''))),
                 (''summary_style'',
                    FieldEntry (js_or (get_prop options ''summaryStyle'') (JStr ''detailed'')))]
              @ (if truthy (get_prop options ''customPrompt'')
                 then [(''custom_prompt'', FieldEntry (get_prop options ''customPrompt''))]
                 else [])))
       (client_defaults\<lparr>content_type := ''multipart/form-data'', timeout_ms := 900000\<rparr>)"

definition summarizeMultilingual :: "jsobject \<Rightarrow> api_request" where
  "summarizeMultilingual data = Post ''/summarize/multilingual'' (Json data) client_defaults"

subsection \<open>qaAPI\<close>

definition askQuestion :: "jsobject \<Rightarrow> api_request" where
  "askQuestion data = Post ''/qa/ask'' (Json data) client_defaults"

definition conversationalQA :: "qa_request \<Rightarrow> api_request" where
  "conversationalQA data = Post ''/qa/conversation'' (JsonQA data) client_defaults"

definition batchQA :: "string list \<Rightarrow> string \<Rightarrow> string \<Rightarrow> api_request" where
  "batchQA questions ctx language =
     Post ''/qa/batch'' (JsonBatchQA questions ctx language) client_defaults"

definition getSuggestedQuestions :: "string \<Rightarrow> int \<Rightarrow> api_request" where
  "getSuggestedQuestions ctx numQuestions =
     Get ''/qa/suggested-questions''
       [''context'' \<mapsto> JStr ctx, ''num_questions'' \<mapsto> JNum numQuestions]
       client_defaults"

subsection \<open>exportAPI\<close>

definition exportTxt :: "jsobject \<Rightarrow> api_request" where
  "exportTxt data =
     Post ''/export/txt'' (Json data) (client_defaults\<lparr>response_type := Some ''blob''\<rparr>)"

definition exportDocx :: "jsobject \<Rightarrow> api_request" where
  "exportDocx data =
     Post ''/export/docx'' (Json data) (client_defaults\<lparr>response_type := Some ''blob''\<rparr>)"

definition exportPdf :: "jsobject \<Rightarrow> api_request" where
  "exportPdf data =
     Post ''/export/pdf'' (Json data) (client_defaults\<lparr>response_type := Some ''blob''\<rparr>)"

definition generateTTS :: "jsobject \<Rightarrow> api_request" where
  "generateTTS data =
     Post ''/tts/generate'' (Json data) (client_defaults\<lparr>response_type := Some ''blob''\<rparr>)"

definition getSupportedLanguages :: api_request where
  "getSupportedLanguages = Get ''/tts/languages'' Map.empty client_defaults"

definition batchExport :: "jsobject \<Rightarrow> api_request" where
  "batchExport data = Post ''/export/batch'' (Json data) client_defaults"

text \<open>The requests that the methods of \<open>summarizeAPI\<close>, \<open>qaAPI\<close> and \<open>exportAPI\<close> build.\<close>

inductive_set client_requests :: "api_request set" where
  "summarizeText data \<in> client_requests"
| "summarizeDocument fs options \<in> client_requests"
| "summarizeUrl data \<in> client_requests"
| "summarizeYoutube data \<in> client_requests"
| "summarizeMultilingual data \<in> client_requests"
| "askQuestion data \<in> client_requests"
| "conversationalQA rq \<in> client_requests"
| "batchQA questions ctx language \<in> client_requests"
| "getSuggestedQuestions ctx numQuestions \<in> client_requests"
| "exportTxt data \<in> client_requests"
| "exportDocx data \<in> client_requests"
| "exportPdf data \<in> client_requests"
| "generateTTS data \<in> client_requests"
| "getSupportedLanguages \<in> client_requests"
| "batchExport data \<in> client_requests"

subsection \<open>Timeouts of the HTTP library\<close>

text \<open>
  Modelled from the documentation of axios, the HTTP library the client is built on
  (it is not code of this repository): \<open>timeout\<close> is the number of milliseconds before
  the request times out; a request that takes longer is aborted, and 0, the library's
  default, means no timeout. The abort rejects the call with an error that has the code
  \<open>ECONNABORTED\<close>, a request and no response. The server either replies after some
  milliseconds, with an error or with data, or never replies; \<open>axios_settles\<close> gives the
  time at which the call settles and what it settles with, and \<open>None\<close> when the call
  stays pending for ever.
\<close>

datatype 'a server_reply = RepliesAfter nat "axios_error + 'a" | NeverReplies

definition timeout_error :: axios_error where
  "timeout_error = \<lparr> error_response = None, has_request = True, code = ''ECONNABORTED'' \<rparr>"

definition axios_settles :: "nat \<Rightarrow> 'a server_reply \<Rightarrow> (nat \<times> (axios_error + 'a)) option" where
  "axios_settles tmo reply =
     (case reply of
        RepliesAfter d outcome \<Rightarrow>
          if tmo = 0 \<or> d \<le> tmo then Some (d, outcome) else Some (tmo, Inl timeout_error)
      | NeverReplies \<Rightarrow>
          if tmo = 0 then None else Some (tmo, Inl timeout_error))"

text \<open>The errors that an expired timeout produces, as the interceptor recognises them.\<close>

definition timed_out :: "axios_error \<Rightarrow> bool" where
  "timed_out err = (error_response err = None \<and> has_request err \<and> code err = ''ECONNABORTED'')"

section \<open>The components' handlers\<close>

text \<open>
  A handler runs on the store, on the component's own state (\<open>processingStatus\<close> of the
  input section, \<open>isAsking\<close> of the Q&A section) and on the events so far. An \<open>await\<close> is
  modelled as one step: no other action changes the store while a request is pending,
  so the values a handler closed over at render time are those of the store it runs on.
\<close>

record world =
  store :: app_store
  processingStatus :: string
  isAsking :: bool
  events :: "event list"

definition emit :: "event list \<Rightarrow> world \<Rightarrow> world" where
  "emit evs w = w\<lparr>events := events w @ evs\<rparr>"

definition on_store :: "(app_store \<Rightarrow> app_store) \<Rightarrow> world \<Rightarrow> world" where
  "on_store f w = w\<lparr>store := f (store w)\<rparr>"

subsection \<open>InputSection.handleSummarize\<close>

text \<open>The JSON body of the text, URL and YouTube requests; \<open>key\<close> is \<open>text\<close> or \<open>url\<close>.\<close>

definition summarize_payload :: "string \<Rightarrow> string \<Rightarrow> jsobject \<Rightarrow> jsobject" where
  "summarize_payload key content st =
     [key \<mapsto> JStr content,
      ''max_length'' \<mapsto> get_prop st ''maxLength'',
      ''min_length'' \<mapsto> get_prop st ''minLength'',
      ''summary_type'' \<mapsto> get_prop st ''summaryType'',
      ''summary_style'' \<mapsto> get_prop st ''summaryStyle'',
      ''custom_prompt'' \<mapsto> js_or (get_prop st ''customPrompt'') JUndefined]"

definition document_options :: "jsobject \<Rightarrow> jsobject" where
  "document_options st =
     [''maxLength'' \<mapsto> get_prop st ''maxLength'',
      ''minLength'' \<mapsto> get_prop st ''minLength'',
      ''summaryType'' \<mapsto> get_prop st ''summaryType'',
      ''summaryStyle'' \<mapsto> get_prop st ''summaryStyle'',
      ''customPrompt'' \<mapsto> js_or (get_prop st ''customPrompt'') JUndefined]"

text \<open>The \<open>switch (activeTab)\<close> inside the \<open>try\<close>: the request of the active tab.\<close>

definition summarize_call ::
  "env \<Rightarrow> app_store \<Rightarrow> event list \<times> (thrown + summary_result option)" where
  "summarize_call e s =
     (let ic = inputContent s; st = summarySettings s; tab = activeTab s in
      if tab = ''text'' then
        apiClient_send (summarize_backend e)
          (summarizeText (summarize_payload ''text'' (text_value ic) st))
      else if tab = ''files'' then
        apiClient_send (summarize_backend e)
          (summarizeDocument (files ic) (document_options st))
      else if tab = ''url'' then
        apiClient_send (summarize_backend e)
          (summarizeUrl (summarize_payload ''url'' (url ic) st))
      else if tab = ''youtube'' then
        apiClient_send (summarize_backend e)
          (summarizeYoutube (summarize_payload ''url'' (youtubeUrl ic) st))
      else ([], Inl (PlainError ''Invalid content type'')))"

text \<open>The toast of the \<open>catch\<close> block.\<close>

definition summarize_error_message :: "thrown \<Rightarrow> string" where
  "summarize_error_message err =
     (case err of
        AxiosError a \<Rightarrow>
          if map_option status (error_response a) = Some 500 then
            ''Server error. Please try again.''
          else if has_request a \<and> error_response a = None then
            ''Cannot connect to the backend server. Please ensure it is running on port 8000.''
          else ''Failed to generate summary. Please try again.''
      | TypeError \<Rightarrow> ''Failed to generate summary. Please try again.''
      | PlainError _ \<Rightarrow> ''Failed to generate summary. Please try again.'')"

text \<open>The status update for uploads of more than 1 MB in total.\<close>

definition large_document_notice :: "app_store \<Rightarrow> world \<Rightarrow> world" where
  "large_document_notice s w =
     (if activeTab s = ''files'' \<and> length (files (inputContent s)) > 0
         \<and> sum_list (map file_size (files (inputContent s))) > 1024 * 1024
      then emit [Toast ''Large document detected. This may take several minutes.'']
             (w\<lparr>processingStatus := ''Processing large document - please wait...''\<rparr>)
      else w)"

definition handleSummarize :: "env \<Rightarrow> world \<Rightarrow> world" where
  "handleSummarize e w =
     (if \<not> hasValidInput e (store w) then
        emit [ToastError ''Please provide valid input content''] w
      else
        let w1 = on_store (setCurrentStep ''processing'') (on_store (setLoading True) w);
            w2 = large_document_notice (store w)
                   (w1\<lparr>processingStatus := ''Processing document...''\<rparr>);
            (evs, outcome) = summarize_call e (store w);
            w3 = emit evs w2
        in case outcome of
             Inr result \<Rightarrow>
               emit [ToastSuccess ''Summary generated successfully!'']
                 ((on_store (setLoading False)
                    (on_store (setCurrentStep ''results'')
                      (on_store (setSummaryResults result) w3)))
                  \<lparr>processingStatus := ''''\<rparr>)
           | Inl err \<Rightarrow>
               (on_store (setLoading False)
                 (on_store (setCurrentStep ''input'')
                   (emit [ConsoleError ''Summarization error:'',
                          ToastError (summarize_error_message err)] w3)))
               \<lparr>processingStatus := ''''\<rparr>)"

subsection \<open>QASection\<close>

text \<open>
  \<open>handleAskQuestion(question = currentQuestion)\<close>: the argument is optional. The
  conversation history of the request is \<open>qaHistory.slice(0, 3)\<close>, each entry mapped to
  its question and answer.
\<close>

definition handleAskQuestion :: "env \<Rightarrow> clock \<Rightarrow> string option \<Rightarrow> world \<Rightarrow> world" where
  "handleAskQuestion e clk arg w =
     (let q = (case arg of None \<Rightarrow> currentQuestion (store w) | Some a \<Rightarrow> a) in
      if trim q = [] then emit [ToastError ''Please enter a question''] w
      else
        case getQAContext (store w) of
          None \<Rightarrow> emit [ToastError ''No content available for Q&A''] w
        | Some ctx \<Rightarrow>
            if ctx = [] then emit [ToastError ''No content available for Q&A''] w
            else
              let conversationHistory =
                    map (\<lambda>qa. (question qa, answer qa)) (take 3 (qaHistory (store w)));
                  (evs, outcome) =
                    apiClient_send (qa_backend e)
                      (conversationalQA
                         \<lparr> rq_question = q, rq_context = ctx,
                           conversation_history = conversationHistory,
                           rq_language = ''en'' \<rparr>);
                  w1 = emit evs (w\<lparr>isAsking := True\<rparr>)
              in case outcome of
                   Inr response \<Rightarrow>
                     (emit [ToastSuccess ''Question answered!'']
                        (on_store (setCurrentQuestion '''')
                          (on_store
                             (addQAInteraction clk q (rs_answer response)
                                (rs_confidence response) (rs_supporting_text response))
                             w1)))
                     \<lparr>isAsking := False\<rparr>
                 | Inl err \<Rightarrow>
                     (emit [ToastError ''Failed to get answer. Please try again.''] w1)
                     \<lparr>isAsking := False\<rparr>)"

definition getConfidenceColor :: "real \<Rightarrow> string" where
  "getConfidenceColor c =
     (if c \<ge> 0.8 then ''text-green-600 bg-green-100''
      else if c \<ge> 0.6 then ''text-yellow-600 bg-yellow-100''
      else ''text-red-600 bg-red-100'')"

definition getConfidenceLabel :: "real \<Rightarrow> string" where
  "getConfidenceLabel c =
     (if c \<ge> 0.8 then ''High''
      else if c \<ge> 0.6 then ''Medium''
      else ''Low'')"

section \<open>Runs and sequences of actions\<close>

text \<open>The events a run added to the log, and two tests on events.\<close>

definition new_events :: "world \<Rightarrow> world \<Rightarrow> event list" where
  "new_events w w' = drop (length (events w)) (events w')"

definition is_request :: "event \<Rightarrow> bool" where
  "is_request ev = (case ev of Request _ \<Rightarrow> True | _ \<Rightarrow> False)"

definition is_error_toast :: "event \<Rightarrow> bool" where
  "is_error_toast ev = (case ev of ToastError _ \<Rightarrow> True | _ \<Rightarrow> False)"

text \<open>
  A sequence of calls of \<open>addQAInteraction\<close>, the first element of the list first, and the
  entry each call builds.
\<close>

fun addQAInteractions ::
  "(clock \<times> string \<times> string \<times> real \<times> string) list \<Rightarrow> app_store \<Rightarrow> app_store" where
  "addQAInteractions [] s = s"
| "addQAInteractions ((clk, q, a, c, st) # xs) s =
     addQAInteractions xs (addQAInteraction clk q a c st s)"

definition qa_entry :: "clock \<times> string \<times> string \<times> real \<times> string \<Rightarrow> qa_interaction" where
  "qa_entry x =
     (case x of (clk, q, a, c, st) \<Rightarrow>
        \<lparr> qa_id = now_ms clk, question = q, answer = a, confidence = c,
          supportingText = st, timestamp = now_iso clk \<rparr>)"

subsection \<open>Concrete states\<close>

definition example_result :: summary_result where
  "example_result = \<lparr> summary = Some ''A short summary.'', metadata = None \<rparr>"

definition example_answer :: qa_response where
  "example_answer = \<lparr> rs_answer = ''Forty-two.'', rs_confidence = 0.9,
                       rs_supporting_text = ''summary'' \<rparr>"

definition example_env :: env where
  "example_env =
     \<lparr> isValidUrl = (\<lambda>u. take 4 u = ''http''),
       summarize_backend = (\<lambda>_. Inr (Some example_result)),
       qa_backend = (\<lambda>_. Inr example_answer) \<rparr>"

definition example_clock :: clock where
  "example_clock = \<lparr> now_ms = 1700000000000, now_iso = ''2023-11-14T22:13:20.000Z'' \<rparr>"

definition initial_world :: world where
  "initial_world = \<lparr> store = initial_store, processingStatus = '''', isAsking = False,
                      events = [] \<rparr>"

text \<open>The user has typed a text of twenty characters.\<close>

definition typed_world :: world where
  "typed_world =
     on_store (\<lambda>s. s\<lparr>inputContent := (inputContent s)\<lparr>text_value := ''The quick brown fox.''\<rparr>\<rparr>)
       initial_world"

text \<open>A back end that answers every summarization request with status 200 and body \<open>null\<close>.\<close>

definition null_body_env :: env where
  "null_body_env =
     \<lparr> isValidUrl = (\<lambda>u. take 4 u = ''http''),
       summarize_backend = (\<lambda>_. Inr None),
       qa_backend = (\<lambda>_. Inr example_answer) \<rparr>"

text \<open>A back end that cannot be reached: the request was sent and no response came.\<close>

definition network_down :: axios_error where
  "network_down = \<lparr> error_response = None, has_request = True, code = ''ERR_NETWORK'' \<rparr>"

definition offline_env :: env where
  "offline_env =
     \<lparr> isValidUrl = (\<lambda>u. take 4 u = ''http''),
       summarize_backend = (\<lambda>_. Inl network_down),
       qa_backend = (\<lambda>_. Inl network_down) \<rparr>"

text \<open>A back end whose every answer is the error of an expired timeout.\<close>

definition timeout_env :: env where
  "timeout_env =
     \<lparr> isValidUrl = (\<lambda>u. take 4 u = ''http''),
       summarize_backend = (\<lambda>_. Inl timeout_error),
       qa_backend = (\<lambda>_. Inl timeout_error) \<rparr>"

text \<open>A summary is present and four questions have been answered.\<close>

definition chat_world :: world where
  "chat_world =
     on_store
       (addQAInteractions
          [(example_clock, ''q1'', ''a1'', 0.9, ''s1''),
           (example_clock, ''q2'', ''a2'', 0.7, ''s2''),
           (example_clock, ''q3'', ''a3'', 0.5, ''s3''),
           (example_clock, ''q4'', ''a4'', 0.8, ''s4'')])
       (on_store (setSummaryResults (Some example_result)) initial_world)"

definition chat_request :: qa_request where
  "chat_request =
     \<lparr> rq_question = ''Why?'', rq_context = ''A short summary.'',
       conversation_history = [(''q4'', ''a4''), (''q3'', ''a3''), (''q2'', ''a2'')],
       rq_language = ''en'' \<rparr>"

definition typed_request :: api_request where
  "typed_request =
     summarizeText (summarize_payload ''text'' ''The quick brown fox.'' initial_settings)"

section \<open>The chunker\<close>

text \<open>
  Modelled from the spec: the chunker is code of the back end
  (\<open>backend/app/services/summarizer.py\<close>), which is not among the sources; what follows
  is the chunker of the specification's section 4.2 and its data model. A text is a list
  of units (characters or tokens). The size budget and the overlap are the configured
  \<open>chunk size/overlap\<close>; the tolerance window and the test for a sentence or paragraph
  break are the fixed boundary policy.
\<close>

datatype chunk_error = InvalidInputError

text \<open>
  Modelled from the spec: \<open>Chunk: ordinal index, text span, overlap_with_previous\<close>.
\<close>

record 'a chunk =
  ordinal_index :: nat
  text_span :: "'a list"
  overlap_with_previous :: nat

record 'a boundary_policy =
  tolerance :: nat
  is_break :: "'a \<Rightarrow> bool"

text \<open>
  Modelled from the spec: \<open>Boundary selection prefers the nearest sentence/paragraph break
  to the budget edge within a tolerance window; falls back to a hard cut otherwise.\<close>
  \<open>choose_cut\<close> gives the length of the next chunk of a text longer than the budget: the
  largest length \<open>p\<close> in the window below the budget edge such that the chunk would end
  with a break unit, or the budget when the window holds none. The window never reaches
  down to the overlap, since the invariant of the data model wants the overlap smaller
  than the chunk.
\<close>

definition choose_cut :: "'a boundary_policy \<Rightarrow> nat \<Rightarrow> nat \<Rightarrow> 'a list \<Rightarrow> nat" where
  "choose_cut pol B olap xs =
     (let lo = max (B - tolerance pol) (Suc olap) in
      case filter (\<lambda>p. is_break pol (xs ! (p - 1))) (rev [lo..<Suc B]) of
        [] \<Rightarrow> B
      | p # _ \<Rightarrow> p)"

lemma choose_cut_bounds:
  assumes "olap < B"
  shows "olap < choose_cut pol B olap xs \<and> choose_cut pol B olap xs \<le> B"
proof (cases "filter (\<lambda>p. is_break pol (xs ! (p - 1)))
                (rev [max (B - tolerance pol) (Suc olap)..<Suc B])")
  case Nil
  with assms show ?thesis by (simp add: choose_cut_def)
next
  case (Cons p ps)
  then have "p \<in> set (filter (\<lambda>p. is_break pol (xs ! (p - 1)))
                (rev [max (B - tolerance pol) (Suc olap)..<Suc B]))"
    by simp
  then have "max (B - tolerance pol) (Suc olap) \<le> p \<and> p < Suc B"
    by auto
  with Cons show ?thesis by (simp add: choose_cut_def)
qed

text \<open>
  Modelled from the spec: \<open>Splits normalized text into ordered chunks bounded by a
  configured size budget with configurable overlap\<close>, and \<open>Input shorter than the budget
  yields exactly one chunk with no overlap.\<close> \<open>chunks_from pol B olap i ov xs\<close> chunks the
  text \<open>xs\<close> that starts at the start of chunk \<open>i\<close>, whose first \<open>ov\<close> units repeat the end
  of chunk \<open>i - 1\<close>. A text within the budget is the last chunk; otherwise the chunk ends
  at the chosen cut and the next one starts \<open>olap\<close> units before it. Where the overlap is
  not smaller than the budget, which the invariants exclude, nothing is split.
\<close>

function chunks_from ::
  "'a boundary_policy \<Rightarrow> nat \<Rightarrow> nat \<Rightarrow> nat \<Rightarrow> nat \<Rightarrow> 'a list \<Rightarrow> 'a chunk list" where
  "chunks_from pol B olap i ov xs =
     (if length xs \<le> B \<or> B \<le> olap then
        [\<lparr> ordinal_index = i, text_span = xs, overlap_with_previous = ov \<rparr>]
      else
        \<lparr> ordinal_index = i, text_span = take (choose_cut pol B olap xs) xs,
          overlap_with_previous = ov \<rparr>
        # chunks_from pol B olap (Suc i) olap (drop (choose_cut pol B olap xs - olap) xs))"
  by pat_completeness auto
termination
proof (relation "measure (\<lambda>(pol, B, olap, i, ov, xs). length xs)")
  show "wf (measure (\<lambda>(pol, B, olap, i, ov, xs). length xs))" by simp
next
  fix pol :: "'a boundary_policy" and B olap i ov :: nat and xs :: "'a list"
  assume "\<not> (length xs \<le> B \<or> B \<le> olap)"
  then have "olap < B" and "B < length xs" by simp_all
  with choose_cut_bounds [of olap B pol xs]
  have "0 < choose_cut pol B olap xs - olap" and "0 < length xs" by auto
  then have "length xs - (choose_cut pol B olap xs - olap) < length xs"
    by (rule diff_less)
  then show "((pol, B, olap, Suc i, olap, drop (choose_cut pol B olap xs - olap) xs), pol, B, olap, i, ov, xs)
          \<in> measure (\<lambda>(pol, B, olap, i, ov, xs). length xs)"
    by simp
qed

declare chunks_from.simps [simp del]

text \<open>
  Modelled from the spec: \<open>Empty input is rejected with InvalidInputError before chunking
  is attempted.\<close>
\<close>

definition chunk_text ::
  "'a boundary_policy \<Rightarrow> nat \<Rightarrow> nat \<Rightarrow> 'a list \<Rightarrow> chunk_error + 'a chunk list" where
  "chunk_text pol B olap t =
     (if t = [] then Inl InvalidInputError else Inr (chunks_from pol B olap 0 0 t))"

text \<open>
  Modelled from the spec: \<open>removing overlaps and concatenating chunks\<close>. Each chunk
  loses the units it repeats from the chunk before it.
\<close>

definition remove_overlaps :: "'a chunk list \<Rightarrow> 'a list" where
  "remove_overlaps cs = concat (map (\<lambda>c. drop (overlap_with_previous c) (text_span c)) cs)"

text \<open>A policy that cuts after a full stop, at most three characters below the budget.\<close>

definition sentence_policy :: "char boundary_policy" where
  "sentence_policy = \<lparr> tolerance = 3, is_break = (\<lambda>c. c = CHR ''.'') \<rparr>"

section \<open>Verified properties\<close>

subsection \<open>Auxiliary facts\<close>

lemma emit_simps [simp]:
  "store (emit evs w) = store w"
  "processingStatus (emit evs w) = processingStatus w"
  "isAsking (emit evs w) = isAsking w"
  "events (emit evs w) = events w @ evs"
  by (simp_all add: emit_def)

lemma on_store_simps [simp]:
  "store (on_store f w) = f (store w)"
  "processingStatus (on_store f w) = processingStatus w"
  "isAsking (on_store f w) = isAsking w"
  "events (on_store f w) = events w"
  by (simp_all add: on_store_def)

lemma new_events_append [simp]: "events w' = events w @ evs \<Longrightarrow> new_events w w' = evs"
  by (simp add: new_events_def)

lemma response_interceptor_no_request:
  "\<not> list_ex is_request (fst (response_interceptor err))"
  by (simp add: response_interceptor_def is_request_def
      split: option.splits response_data.splits)

lemma qaHistory_addQAInteractions:
  "qaHistory (addQAInteractions xs s) = rev (map qa_entry xs) @ qaHistory s"
  by (induction xs s rule: addQAInteractions.induct)
     (simp_all add: addQAInteraction_def qa_entry_def)

lemma length_addQAInteractions:
  "length (qaHistory (addQAInteractions xs s)) = length (qaHistory s) + length xs"
  by (simp add: qaHistory_addQAInteractions)

lemma large_document_notice_store [simp]:
  "store (large_document_notice s w) = store w"
  by (simp add: large_document_notice_def)

lemma large_document_notice_events:
  "\<exists>evs. events (large_document_notice s w) = events w @ evs \<and> \<not> list_ex is_request evs
     \<and> \<not> list_ex is_error_toast evs"
  by (simp add: large_document_notice_def is_request_def is_error_toast_def)

lemma handleSummarize_invalid:
  "\<not> hasValidInput e (store w) \<Longrightarrow>
   handleSummarize e w = emit [ToastError ''Please provide valid input content''] w"
  by (simp add: handleSummarize_def)

lemma summarize_call_send:
  "hasValidInput e s \<Longrightarrow>
   \<exists>req. summarize_call e s = apiClient_send (summarize_backend e) req"
  by (auto simp: hasValidInput_def summarize_call_def Let_def split: if_splits)

lemma apiClient_send_requests:
  "filter is_request (fst (apiClient_send backend req)) = [Request req]"
proof -
  have "filter is_request (fst (response_interceptor err)) = []" for err
    using response_interceptor_no_request [of err]
    by (simp add: list_ex_iff filter_empty_conv)
  then show ?thesis
    by (simp add: apiClient_send_def is_request_def split: sum.splits)
qed

lemma handleSummarize_success:
  assumes "hasValidInput e (store w)" and "summarize_call e (store w) = (evs, Inr r)"
  shows "store (handleSummarize e w) =
           (store w)\<lparr>isLoading := False, currentStep := ''results'',
                     summaryResults := r,
                     summaryHistory := r # take 9 (summaryHistory (store w))\<rparr>"
    and "processingStatus (handleSummarize e w) = ''''"
    and "\<exists>pre. events (handleSummarize e w) =
            events w @ pre @ evs @ [ToastSuccess ''Summary generated successfully!'']
            \<and> \<not> list_ex is_request pre \<and> \<not> list_ex is_error_toast pre"
proof -
  show "store (handleSummarize e w) =
           (store w)\<lparr>isLoading := False, currentStep := ''results'',
                     summaryResults := r,
                     summaryHistory := r # take 9 (summaryHistory (store w))\<rparr>"
    using assms
    by (simp add: handleSummarize_def Let_def setLoading_def setCurrentStep_def
        setSummaryResults_def)
  show "processingStatus (handleSummarize e w) = ''''"
    using assms by (simp add: handleSummarize_def Let_def)
  obtain pre where pre:
    "events (large_document_notice (store w)
       ((on_store (setCurrentStep ''processing'') (on_store (setLoading True) w))
         \<lparr>processingStatus := ''Processing document...''\<rparr>)) = events w @ pre"
    "\<not> list_ex is_request pre" "\<not> list_ex is_error_toast pre"
    using large_document_notice_events
      [of "store w" "(on_store (setCurrentStep ''processing'') (on_store (setLoading True) w))
         \<lparr>processingStatus := ''Processing document...''\<rparr>"]
    by auto
  show "\<exists>pre. events (handleSummarize e w) =
            events w @ pre @ evs @ [ToastSuccess ''Summary generated successfully!'']
            \<and> \<not> list_ex is_request pre \<and> \<not> list_ex is_error_toast pre"
    using assms pre by (simp add: handleSummarize_def Let_def)
qed

lemma handleSummarize_failure:
  assumes "hasValidInput e (store w)" and "summarize_call e (store w) = (evs, Inl err)"
  shows "store (handleSummarize e w) =
           (store w)\<lparr>isLoading := False, currentStep := ''input''\<rparr>"
    and "processingStatus (handleSummarize e w) = ''''"
    and "\<exists>pre. events (handleSummarize e w) =
            events w @ pre @ evs @ [ConsoleError ''Summarization error:'',
                                     ToastError (summarize_error_message err)]
            \<and> \<not> list_ex is_request pre \<and> \<not> list_ex is_error_toast pre"
proof -
  show "store (handleSummarize e w) =
           (store w)\<lparr>isLoading := False, currentStep := ''input''\<rparr>"
    using assms
    by (simp add: handleSummarize_def Let_def setLoading_def setCurrentStep_def)
  show "processingStatus (handleSummarize e w) = ''''"
    using assms by (simp add: handleSummarize_def Let_def)
  obtain pre where pre:
    "events (large_document_notice (store w)
       ((on_store (setCurrentStep ''processing'') (on_store (setLoading True) w))
         \<lparr>processingStatus := ''Processing document...''\<rparr>)) = events w @ pre"
    "\<not> list_ex is_request pre" "\<not> list_ex is_error_toast pre"
    using large_document_notice_events
      [of "store w" "(on_store (setCurrentStep ''processing'') (on_store (setLoading True) w))
         \<lparr>processingStatus := ''Processing document...''\<rparr>"]
    by auto
  show "\<exists>pre. events (handleSummarize e w) =
            events w @ pre @ evs @ [ConsoleError ''Summarization error:'',
                                     ToastError (summarize_error_message err)]
            \<and> \<not> list_ex is_request pre \<and> \<not> list_ex is_error_toast pre"
    using assms pre by (simp add: handleSummarize_def Let_def)
qed

lemma handleAskQuestion_requests:
  assumes "Request req \<in> set (new_events w (handleAskQuestion e clk arg w))"
  shows "\<exists>q ctx. req = conversationalQA
            \<lparr> rq_question = q, rq_context = ctx,
              conversation_history =
                map (\<lambda>qa. (question qa, answer qa)) (take 3 (qaHistory (store w))),
              rq_language = ''en'' \<rparr>"
proof -
  have no: "Request req \<notin> set (fst (response_interceptor err))" for err
    using response_interceptor_no_request [of err]
    by (auto simp: list_ex_iff is_request_def)
  show ?thesis
    using assms no
    by (auto simp: handleAskQuestion_def Let_def apiClient_send_def
        split: if_splits option.splits sum.splits)
qed

lemma chat_world_run:
  "new_events chat_world (handleAskQuestion example_env example_clock (Some ''Why?'') chat_world)
     = [Request (Post ''/qa/conversation'' (JsonQA chat_request) client_defaults),
        ToastSuccess ''Question answered!'']"
  by (simp add: handleAskQuestion_def chat_world_def chat_request_def Let_def trim_def
      is_js_space_def getQAContext_def setSummaryResults_def initial_world_def
      initial_store_def example_result_def apiClient_send_def example_env_def
      conversationalQA_def addQAInteraction_def example_clock_def)

subsection \<open>The store's histories and settings\<close>

text \<open>
  Claim C9. \<open>setSummaryResults\<close> stores the new result, puts it at the head of
  \<open>summaryHistory\<close> in front of the nine newest earlier entries, and so keeps the history
  at ten entries or fewer, whatever the history was before.
\<close>

theorem setSummaryResults_history_bounded:
  "summaryResults (setSummaryResults r s) = r
   \<and> hd (summaryHistory (setSummaryResults r s)) = r
   \<and> tl (summaryHistory (setSummaryResults r s)) = take 9 (summaryHistory s)
   \<and> length (summaryHistory (setSummaryResults r s)) = min 10 (Suc (length (summaryHistory s)))
   \<and> length (summaryHistory (setSummaryResults r s)) \<le> 10"
  by (simp add: setSummaryResults_def)

text \<open>
  Claim C1, as the code has it. \<open>addQAInteraction\<close> puts the new interaction at the
  front of \<open>qaHistory\<close> and keeps every earlier entry: after any sequence of additions the
  history holds all of them, newest first, before the entries it started with, and its
  length has grown by the number of additions. The store drops nothing.
\<close>

theorem addQAInteraction_prepends_keeps_all:
  "qaHistory (addQAInteraction clk q a c st s) = qa_entry (clk, q, a, c, st) # qaHistory s
   \<and> qaHistory (addQAInteractions xs s) = rev (map qa_entry xs) @ qaHistory s
   \<and> length (qaHistory (addQAInteractions xs s)) = length (qaHistory s) + length xs"
  by (simp add: qaHistory_addQAInteractions addQAInteraction_def qa_entry_def)

text \<open>
  Claim C1 as stated fails: no bound holds for the length of \<open>qaHistory\<close> over all
  sequences of additions. For a bound \<open>B\<close>, \<open>B + 1\<close> additions to the initial store
  give a history of \<open>B + 1\<close> entries.
\<close>

theorem qaHistory_has_no_bound:
  "\<not> (\<exists>B. \<forall>xs. length (qaHistory (addQAInteractions xs initial_store)) \<le> B)"
proof
  assume "\<exists>B. \<forall>xs. length (qaHistory (addQAInteractions xs initial_store)) \<le> B"
  then obtain B where
    b: "\<forall>xs. length (qaHistory (addQAInteractions xs initial_store)) \<le> B" ..
  let ?x = "(example_clock, ''q'', ''a'', 1::real, '''')"
  from b have "length (qaHistory (addQAInteractions (replicate (Suc B) ?x) initial_store)) \<le> B" ..
  then have "length (qaHistory initial_store) + Suc B \<le> B"
    by (simp only: length_addQAInteractions length_replicate)
  then show False by simp
qed

text \<open>
  Claim C10. \<open>updateSummarySettings\<close> changes the keys of its argument and nothing
  else: a key absent from the argument keeps its value in \<open>summarySettings\<close>, a key
  present takes the argument's value, and every other field of the store is unchanged.
\<close>

theorem updateSummarySettings_frame:
  "(\<forall>k. k \<notin> dom settings \<longrightarrow>
        summarySettings (updateSummarySettings settings s) k = summarySettings s k)
   \<and> (\<forall>k \<in> dom settings. summarySettings (updateSummarySettings settings s) k = settings k)
   \<and> isLoading (updateSummarySettings settings s) = isLoading s
   \<and> currentStep (updateSummarySettings settings s) = currentStep s
   \<and> activeTab (updateSummarySettings settings s) = activeTab s
   \<and> inputContent (updateSummarySettings settings s) = inputContent s
   \<and> summaryResults (updateSummarySettings settings s) = summaryResults s
   \<and> summaryHistory (updateSummarySettings settings s) = summaryHistory s
   \<and> qaHistory (updateSummarySettings settings s) = qaHistory s
   \<and> currentQuestion (updateSummarySettings settings s) = currentQuestion s"
  by (auto simp: updateSummarySettings_def map_add_def split: option.splits)

theorem updateSummarySettings_frame_witness:
  "summarySettings (updateSummarySettings [''maxLength'' \<mapsto> JNum 500] initial_store) ''minLength''
     = Some (JNum 300)
   \<and> summarySettings (updateSummarySettings [''maxLength'' \<mapsto> JNum 500] initial_store) ''maxLength''
     = Some (JNum 500)
   \<and> inputContent (updateSummarySettings [''maxLength'' \<mapsto> JNum 500] initial_store)
     = inputContent initial_store"
proof -
  have a: "''minLength'' \<notin> dom [''maxLength'' \<mapsto> JNum 500]" by simp
  have b: "''maxLength'' \<in> dom [''maxLength'' \<mapsto> JNum 500]" by simp
  have c: "summarySettings initial_store ''minLength'' = Some (JNum 300)"
    by (simp add: initial_store_def initial_settings_def)
  from updateSummarySettings_frame [of "[''maxLength'' \<mapsto> JNum 500]" initial_store] a b c
  show ?thesis by simp
qed

subsection \<open>Confidence buckets\<close>

text \<open>
  Claim C3. For every confidence \<open>c\<close>, and so for every \<open>c\<close> between 0 and 1, the label
  is Low exactly when \<open>c < 0.6\<close>, Medium exactly when \<open>0.6 \<le> c < 0.8\<close> and High exactly
  when \<open>c \<ge> 0.8\<close>, and the colour is the red, yellow or green one exactly with the
  label Low, Medium or High.
\<close>

theorem confidence_buckets:
  "(getConfidenceLabel c = ''Low'' \<longleftrightarrow> c < 0.6)
   \<and> (getConfidenceLabel c = ''Medium'' \<longleftrightarrow> 0.6 \<le> c \<and> c < 0.8)
   \<and> (getConfidenceLabel c = ''High'' \<longleftrightarrow> c \<ge> 0.8)
   \<and> (getConfidenceColor c = ''text-red-600 bg-red-100'' \<longleftrightarrow> getConfidenceLabel c = ''Low'')
   \<and> (getConfidenceColor c = ''text-yellow-600 bg-yellow-100''
        \<longleftrightarrow> getConfidenceLabel c = ''Medium'')
   \<and> (getConfidenceColor c = ''text-green-600 bg-green-100''
        \<longleftrightarrow> getConfidenceLabel c = ''High'')"
  by (simp add: getConfidenceLabel_def getConfidenceColor_def)

subsection \<open>Asking a question\<close>

text \<open>
  Claim C2. When the Q&A context is empty or missing (\<open>getQAContext\<close> gives a falsy
  value, as it does when no summary result is present), \<open>handleAskQuestion\<close> changes
  neither the store, the history included, nor \<open>isAsking\<close>; it shows exactly one error
  toast and issues no request.
\<close>

theorem handleAskQuestion_rejects_empty_context:
  assumes "\<not> truthy_str (getQAContext (store w))"
  shows "store (handleAskQuestion e clk arg w) = store w
         \<and> isAsking (handleAskQuestion e clk arg w) = isAsking w
         \<and> (new_events w (handleAskQuestion e clk arg w)
              = [ToastError ''Please enter a question'']
            \<or> new_events w (handleAskQuestion e clk arg w)
              = [ToastError ''No content available for Q&A''])
         \<and> \<not> list_ex is_request (new_events w (handleAskQuestion e clk arg w))"
proof (cases "trim (case arg of None \<Rightarrow> currentQuestion (store w) | Some a \<Rightarrow> a) = []")
  case True
  then have "handleAskQuestion e clk arg w = emit [ToastError ''Please enter a question''] w"
    by (simp add: handleAskQuestion_def Let_def)
  then show ?thesis by (simp add: is_request_def)
next
  case False
  with assms have
    "handleAskQuestion e clk arg w = emit [ToastError ''No content available for Q&A''] w"
    by (simp add: handleAskQuestion_def Let_def truthy_str_def split: option.splits)
  then show ?thesis by (simp add: is_request_def)
qed

theorem handleAskQuestion_rejects_empty_context_witness:
  "\<not> truthy_str (getQAContext (store initial_world))
   \<and> store (handleAskQuestion example_env example_clock (Some ''What is it about?'') initial_world)
       = store initial_world
   \<and> new_events initial_world
        (handleAskQuestion example_env example_clock (Some ''What is it about?'') initial_world)
       = [ToastError ''No content available for Q&A'']"
proof -
  have h: "\<not> truthy_str (getQAContext (store initial_world))"
    by (simp add: getQAContext_def initial_world_def initial_store_def truthy_str_def)
  have t: "trim ''What is it about?'' \<noteq> []"
    by (simp add: trim_def is_js_space_def)
  have "new_events initial_world
        (handleAskQuestion example_env example_clock (Some ''What is it about?'') initial_world)
       \<noteq> [ToastError ''Please enter a question'']"
    using t h
    by (simp add: handleAskQuestion_def Let_def getQAContext_def initial_world_def
        initial_store_def)
  then show ?thesis
    using h handleAskQuestion_rejects_empty_context
              [OF h, of example_env example_clock "Some ''What is it about?''"]
    by blast
qed

text \<open>
  Claim C6. A conversational Q&A request that \<open>handleAskQuestion\<close> issues carries as
  \<open>conversation_history\<close> the three newest interactions of \<open>qaHistory\<close> (all of them when
  there are fewer), newest first, each as its question and answer; the field never has
  more than three entries.
\<close>

theorem conversation_history_bounded:
  assumes "Request (Post path (JsonQA rq) cfg)
             \<in> set (new_events w (handleAskQuestion e clk arg w))"
  shows "conversation_history rq =
           map (\<lambda>qa. (question qa, answer qa)) (take 3 (qaHistory (store w)))
         \<and> length (conversation_history rq) \<le> 3"
proof -
  from handleAskQuestion_requests [OF assms]
  have "conversation_history rq =
           map (\<lambda>qa. (question qa, answer qa)) (take 3 (qaHistory (store w)))"
    by (auto simp: conversationalQA_def)
  then show ?thesis by simp
qed

theorem conversation_history_bounded_witness:
  "Request (Post ''/qa/conversation'' (JsonQA chat_request) client_defaults)
     \<in> set (new_events chat_world
              (handleAskQuestion example_env example_clock (Some ''Why?'') chat_world))
   \<and> length (qaHistory (store chat_world)) = 4
   \<and> conversation_history chat_request =
        map (\<lambda>qa. (question qa, answer qa)) (take 3 (qaHistory (store chat_world)))
   \<and> length (conversation_history chat_request) \<le> 3"
proof -
  have h: "Request (Post ''/qa/conversation'' (JsonQA chat_request) client_defaults)
     \<in> set (new_events chat_world
              (handleAskQuestion example_env example_clock (Some ''Why?'') chat_world))"
    by (simp add: chat_world_run)
  have l: "length (qaHistory (store chat_world)) = 4"
    by (simp add: chat_world_def addQAInteraction_def setSummaryResults_def
        initial_world_def initial_store_def)
  show ?thesis using h l conversation_history_bounded [OF h] by blast
qed

subsection \<open>Summarizing\<close>

text \<open>What \<open>hasValidInput\<close> accepts, tab by tab, and the regular expression on examples.\<close>

lemma hasValidInput_cases:
  "hasValidInput e s \<longleftrightarrow>
     activeTab s = ''text'' \<and> 10 < length (trim (text_value (inputContent s)))
   \<or> activeTab s = ''files'' \<and> files (inputContent s) \<noteq> []
   \<or> activeTab s = ''url'' \<and> trim (url (inputContent s)) \<noteq> []
       \<and> isValidUrl e (url (inputContent s))
   \<or> activeTab s = ''youtube'' \<and> trim (youtubeUrl (inputContent s)) \<noteq> []
       \<and> isYouTubeUrl (youtubeUrl (inputContent s))"
  by (auto simp: hasValidInput_def Let_def)

lemma isYouTubeUrl_examples:
  "isYouTubeUrl ''https://www.youtube.com/watch?v=abc''"
  "isYouTubeUrl ''youtu.be/abc''"
  "\<not> isYouTubeUrl ''https://youtube.com/''"
  "\<not> isYouTubeUrl ''https://vimeo.com/123''"
  "\<not> isYouTubeUrl ''see https://youtu.be/abc''"
  by (simp_all add: isYouTubeUrl_def strip_any_def is_line_terminator_def)

text \<open>
  Runs on the typed text, whatever the back end answers: the request is the one for the
  text tab, and the run ends as the answer decides.
\<close>

lemma typed_world_valid: "hasValidInput e (store typed_world)"
  by (simp add: hasValidInput_def typed_world_def initial_world_def initial_store_def
      trim_def is_js_space_def)

lemma typed_world_call:
  "summarize_call e (store typed_world) = apiClient_send (summarize_backend e) typed_request"
  by (simp add: summarize_call_def typed_request_def typed_world_def initial_world_def
      initial_store_def)

lemma typed_world_no_notice:
  "large_document_notice (store typed_world) w = w"
  by (simp add: large_document_notice_def typed_world_def initial_world_def
      initial_store_def)

text \<open>
  Claim C4. When \<open>hasValidInput\<close> is false for the active tab, \<open>handleSummarize\<close> leaves
  the store and the processing status as they were, shows the error toast and issues no
  request.
\<close>

theorem handleSummarize_rejects_invalid_input:
  assumes "\<not> hasValidInput e (store w)"
  shows "store (handleSummarize e w) = store w
         \<and> processingStatus (handleSummarize e w) = processingStatus w
         \<and> new_events w (handleSummarize e w)
             = [ToastError ''Please provide valid input content'']
         \<and> \<not> list_ex is_request (new_events w (handleSummarize e w))"
  using assms by (simp add: handleSummarize_invalid is_request_def)

theorem handleSummarize_rejects_invalid_input_witness:
  "\<not> hasValidInput example_env (store initial_world)
   \<and> store (handleSummarize example_env initial_world) = store initial_world
   \<and> new_events initial_world (handleSummarize example_env initial_world)
       = [ToastError ''Please provide valid input content'']
   \<and> \<not> list_ex is_request (new_events initial_world (handleSummarize example_env initial_world))"
proof -
  have h: "\<not> hasValidInput example_env (store initial_world)"
    by (simp add: hasValidInput_def initial_world_def initial_store_def trim_def)
  show ?thesis using h handleSummarize_rejects_invalid_input [OF h] by blast
qed

text \<open>
  Two answers on examples: a back end that cannot be reached, and a 400 response whose
  body is \<open>null\<close>, where the interceptor's read of \<open>data.detail\<close> throws.
\<close>

lemma typed_world_offline:
  "summarize_call offline_env (store typed_world) =
     ([Request typed_request,
       ToastError ''Network error. Please check your connection and ensure the backend server is running.''],
      Inl (AxiosError network_down))"
  "summarize_error_message (AxiosError network_down) =
     ''Cannot connect to the backend server. Please ensure it is running on port 8000.''"
  by (simp_all add: typed_world_call apiClient_send_def offline_env_def network_down_def
      response_interceptor_def summarize_error_message_def)

lemma bad_request_null_body:
  "apiClient_send
     (\<lambda>_. Inl \<lparr> error_response = Some \<lparr> status = 400, response_data = NullData \<rparr>,
                 has_request = True, code = ''ERR_BAD_REQUEST'' \<rparr>) req
     = ([Request req], Inl TypeError :: thrown + summary_result option)"
  by (simp add: apiClient_send_def response_interceptor_def)

text \<open>
  Claim C5, as the code has it. \<open>handleSummarize\<close> is bound to the one control that is
  disabled unless \<open>hasValidInput\<close> holds, so its runs are those on valid input (a run on
  invalid input is claim C4's). Such a run issues one request and ends in one of two
  ways. The back end answers with the data of a successful response: the data are stored
  as they came, as \<open>summaryResults\<close> and at the head of \<open>summaryHistory\<close>, the step is
  \<open>results\<close>, the run ends with the success toast and shows no error. Or the request
  fails: the run ends with the error toast of the \<open>catch\<close> block, \<open>summaryResults\<close> and
  \<open>summaryHistory\<close> are unchanged, and the step is \<open>input\<close>. Nothing is stored in part;
  what is stored is not checked, it is whatever body the response had.
\<close>

theorem handleSummarize_all_or_nothing:
  assumes "hasValidInput e (store w)"
  shows
    "(\<exists>req body. summarize_backend e req = Inr body
        \<and> filter is_request (new_events w (handleSummarize e w)) = [Request req]
        \<and> last (new_events w (handleSummarize e w))
            = ToastSuccess ''Summary generated successfully!''
        \<and> \<not> list_ex is_error_toast (new_events w (handleSummarize e w))
        \<and> summaryResults (store (handleSummarize e w)) = body
        \<and> summaryHistory (store (handleSummarize e w))
            = body # take 9 (summaryHistory (store w))
        \<and> currentStep (store (handleSummarize e w)) = ''results''
        \<and> isLoading (store (handleSummarize e w)) = False)
     \<or> (\<exists>req err. summarize_backend e req = Inl err
        \<and> filter is_request (new_events w (handleSummarize e w)) = [Request req]
        \<and> last (new_events w (handleSummarize e w))
            = ToastError (summarize_error_message (snd (response_interceptor err)))
        \<and> summaryResults (store (handleSummarize e w)) = summaryResults (store w)
        \<and> summaryHistory (store (handleSummarize e w)) = summaryHistory (store w)
        \<and> currentStep (store (handleSummarize e w)) = ''input''
        \<and> isLoading (store (handleSummarize e w)) = False)"
proof -
  from summarize_call_send [OF assms] obtain req where
    call: "summarize_call e (store w) = apiClient_send (summarize_backend e) req" ..
  have reqs: "filter is_request (fst (summarize_call e (store w))) = [Request req]"
    by (simp add: call apiClient_send_requests)
  show ?thesis
  proof (cases "summarize_backend e req")
    case (Inr body)
    then have c: "summarize_call e (store w) = ([Request req], Inr body)"
      by (simp add: call apiClient_send_def)
    from handleSummarize_success(3) [OF assms c] obtain pre where
      pre: "events (handleSummarize e w) =
              events w @ pre @ [Request req] @ [ToastSuccess ''Summary generated successfully!'']"
           "\<not> list_ex is_request pre" "\<not> list_ex is_error_toast pre" by blast
    have ne: "new_events w (handleSummarize e w) =
                pre @ [Request req, ToastSuccess ''Summary generated successfully!'']"
      using pre(1) by simp
    have f: "filter is_request pre = []"
      using pre(2) by (simp add: list_ex_iff filter_empty_conv)
    have "summarize_backend e req = Inr body
        \<and> filter is_request (new_events w (handleSummarize e w)) = [Request req]
        \<and> last (new_events w (handleSummarize e w))
            = ToastSuccess ''Summary generated successfully!''
        \<and> \<not> list_ex is_error_toast (new_events w (handleSummarize e w))
        \<and> summaryResults (store (handleSummarize e w)) = body
        \<and> summaryHistory (store (handleSummarize e w))
            = body # take 9 (summaryHistory (store w))
        \<and> currentStep (store (handleSummarize e w)) = ''results''
        \<and> isLoading (store (handleSummarize e w)) = False"
      using Inr pre(3) f
      by (simp add: ne handleSummarize_success(1) [OF assms c] is_request_def
          is_error_toast_def)
    then show ?thesis by blast
  next
    case (Inl err)
    let ?evs = "Request req # fst (response_interceptor err)"
    let ?thrown = "snd (response_interceptor err)"
    from Inl have c: "summarize_call e (store w) = (?evs, Inl ?thrown)"
      by (simp add: call apiClient_send_def)
    from handleSummarize_failure(3) [OF assms c] obtain pre where
      pre: "events (handleSummarize e w) =
              events w @ pre @ ?evs @ [ConsoleError ''Summarization error:'',
                                       ToastError (summarize_error_message ?thrown)]"
           "\<not> list_ex is_request pre" by blast
    have ne: "new_events w (handleSummarize e w) =
                pre @ ?evs @ [ConsoleError ''Summarization error:'',
                              ToastError (summarize_error_message ?thrown)]"
      using pre(1) by simp
    have f: "filter is_request pre = []"
      using pre(2) by (simp add: list_ex_iff filter_empty_conv)
    have g: "filter is_request ?evs = [Request req]"
      using reqs by (simp add: c)
    have "summarize_backend e req = Inl err
        \<and> filter is_request (new_events w (handleSummarize e w)) = [Request req]
        \<and> last (new_events w (handleSummarize e w))
            = ToastError (summarize_error_message ?thrown)
        \<and> summaryResults (store (handleSummarize e w)) = summaryResults (store w)
        \<and> summaryHistory (store (handleSummarize e w)) = summaryHistory (store w)
        \<and> currentStep (store (handleSummarize e w)) = ''input''
        \<and> isLoading (store (handleSummarize e w)) = False"
      using Inl f g
      by (simp add: ne handleSummarize_failure(1) [OF assms c] is_request_def)
    then show ?thesis by blast
  qed
qed

theorem handleSummarize_all_or_nothing_witness:
  "hasValidInput example_env (store typed_world)
   \<and> summaryResults (store typed_world) = None
   \<and> summaryResults (store (handleSummarize example_env typed_world)) = Some example_result
   \<and> summaryHistory (store (handleSummarize example_env typed_world)) = [Some example_result]
   \<and> currentStep (store (handleSummarize example_env typed_world)) = ''results''"
proof -
  have h: "hasValidInput example_env (store typed_world)"
    by (rule typed_world_valid)
  have b: "summarize_backend example_env req = Inr (Some example_result)" for req
    by (simp add: example_env_def)
  have s: "summaryResults (store typed_world) = None"
          "summaryHistory (store typed_world) = []"
    by (simp_all add: typed_world_def initial_world_def initial_store_def)
  from handleSummarize_all_or_nothing [OF h] b s h
  show ?thesis by auto
qed

text \<open>
  Claim C5 as stated fails when the back end answers a request with status 200 and the
  body \<open>null\<close>. The run on the typed text then shows the success toast and no error,
  sets the step to \<open>results\<close>, and stores \<open>null\<close> as the summary result and at the head
  of the history: it neither completes with a full summary result stored nor fails with
  an explicit error.
\<close>

theorem handleSummarize_stores_null_body:
  "hasValidInput null_body_env (store typed_world)
   \<and> new_events typed_world (handleSummarize null_body_env typed_world)
       = [Request typed_request, ToastSuccess ''Summary generated successfully!'']
   \<and> summaryResults (store (handleSummarize null_body_env typed_world)) = None
   \<and> summaryHistory (store (handleSummarize null_body_env typed_world)) = [None]
   \<and> currentStep (store (handleSummarize null_body_env typed_world)) = ''results''"
proof -
  have h: "hasValidInput null_body_env (store typed_world)"
    by (rule typed_world_valid)
  have c: "summarize_call null_body_env (store typed_world) = ([Request typed_request], Inr None)"
    by (simp add: typed_world_call apiClient_send_def null_body_env_def)
  have s: "summaryHistory (store typed_world) = []"
    by (simp add: typed_world_def initial_world_def initial_store_def)
  have e: "events (handleSummarize null_body_env typed_world)
             = events typed_world
               @ [Request typed_request, ToastSuccess ''Summary generated successfully!'']"
    using h c by (simp add: handleSummarize_def Let_def typed_world_no_notice)
  show ?thesis
    using h s by (simp add: handleSummarize_success(1) [OF h c] e)
qed

subsection \<open>Timeouts\<close>

lemma client_timeouts:
  "request_timeout (summarizeText d) = 600000"
  "request_timeout (summarizeDocument fs options) = 900000"
  "request_timeout (summarizeUrl d) = 600000"
  "request_timeout (summarizeYoutube d) = 600000"
  "request_timeout (summarizeMultilingual d) = 600000"
  "request_timeout (askQuestion d) = 600000"
  "request_timeout (conversationalQA rq) = 600000"
  "request_timeout (batchQA questions ctx language) = 600000"
  "request_timeout (getSuggestedQuestions ctx n) = 600000"
  "request_timeout (exportTxt d) = 600000"
  "request_timeout (exportDocx d) = 600000"
  "request_timeout (exportPdf d) = 600000"
  "request_timeout (generateTTS d) = 600000"
  "request_timeout getSupportedLanguages = 600000"
  "request_timeout (batchExport d) = 600000"
  by (simp_all add: summarizeText_def summarizeDocument_def summarizeUrl_def
      summarizeYoutube_def summarizeMultilingual_def askQuestion_def conversationalQA_def
      batchQA_def getSuggestedQuestions_def exportTxt_def exportDocx_def exportPdf_def
      generateTTS_def getSupportedLanguages_def batchExport_def client_defaults_def)

lemma axios_settles_in_time:
  "0 < tmo \<Longrightarrow> \<exists>t outcome. axios_settles tmo reply = Some (t, outcome) \<and> t \<le> tmo"
  by (cases reply) (auto simp: axios_settles_def)

lemma axios_settles_expired:
  "0 < tmo \<Longrightarrow> reply = NeverReplies \<or> (\<exists>d outcome. reply = RepliesAfter d outcome \<and> tmo < d) \<Longrightarrow>
   axios_settles tmo reply = Some (tmo, Inl timeout_error)"
  by (auto simp: axios_settles_def)

lemma apiClient_send_timed_out:
  "backend req = Inl err \<Longrightarrow> timed_out err \<Longrightarrow>
   apiClient_send backend req =
     ([Request req,
       ToastError ''Request timeout. The operation is taking longer than expected. Please try again.''],
      Inl (AxiosError err))"
  by (simp add: apiClient_send_def response_interceptor_def timed_out_def)

lemma handleSummarize_request:
  assumes "Request req \<in> set (new_events w (handleSummarize e w))"
  shows "hasValidInput e (store w)
         \<and> summarize_call e (store w) = apiClient_send (summarize_backend e) req"
proof -
  have v: "hasValidInput e (store w)"
  proof (rule ccontr)
    assume "\<not> hasValidInput e (store w)"
    with assms show False by (simp add: handleSummarize_invalid)
  qed
  from summarize_call_send [OF v] obtain r where
    call: "summarize_call e (store w) = apiClient_send (summarize_backend e) r" ..
  obtain evs outcome where c: "summarize_call e (store w) = (evs, outcome)"
    by (cases "summarize_call e (store w)")
  have fr: "filter is_request evs = [Request r]"
    using apiClient_send_requests [of "summarize_backend e" r] by (simp add: call [symmetric] c)
  have "\<exists>pre post. new_events w (handleSummarize e w) = pre @ evs @ post
          \<and> filter is_request pre = [] \<and> filter is_request post = []"
  proof (cases outcome)
    case (Inr body)
    from handleSummarize_success(3) [OF v c [unfolded Inr]] obtain pre where
      "events (handleSummarize e w) =
         events w @ pre @ evs @ [ToastSuccess ''Summary generated successfully!'']"
      "\<not> list_ex is_request pre" by blast
    then have "new_events w (handleSummarize e w)
                 = pre @ evs @ [ToastSuccess ''Summary generated successfully!'']
               \<and> filter is_request pre = []
               \<and> filter is_request [ToastSuccess ''Summary generated successfully!''] = []"
      by (simp add: list_ex_iff filter_empty_conv is_request_def)
    then show ?thesis by blast
  next
    case (Inl err)
    from handleSummarize_failure(3) [OF v c [unfolded Inl]] obtain pre where
      "events (handleSummarize e w) =
         events w @ pre @ evs @ [ConsoleError ''Summarization error:'',
                                  ToastError (summarize_error_message err)]"
      "\<not> list_ex is_request pre" by blast
    then have "new_events w (handleSummarize e w)
                 = pre @ evs @ [ConsoleError ''Summarization error:'',
                                ToastError (summarize_error_message err)]
               \<and> filter is_request pre = []
               \<and> filter is_request [ConsoleError ''Summarization error:'',
                                    ToastError (summarize_error_message err)] = []"
      by (simp add: list_ex_iff filter_empty_conv is_request_def)
    then show ?thesis by blast
  qed
  then have "filter is_request (new_events w (handleSummarize e w)) = [Request r]"
    using fr by auto
  moreover have "Request req \<in> set (filter is_request (new_events w (handleSummarize e w)))"
    using assms by (simp add: is_request_def)
  ultimately have "req = r" by simp
  with v call show ?thesis by simp
qed

lemma handleSummarize_timed_out:
  assumes "Request req \<in> set (new_events w (handleSummarize e w))"
    and "summarize_backend e req = Inl err" and "timed_out err"
  shows "(\<exists>pre. new_events w (handleSummarize e w) =
            pre @ [Request req,
                   ToastError ''Request timeout. The operation is taking longer than expected. Please try again.'',
                   ConsoleError ''Summarization error:'',
                   ToastError ''Cannot connect to the backend server. Please ensure it is running on port 8000.'']
            \<and> \<not> list_ex is_request pre \<and> \<not> list_ex is_error_toast pre)
         \<and> store (handleSummarize e w) = (store w)\<lparr>isLoading := False, currentStep := ''input''\<rparr>"
proof -
  from handleSummarize_request [OF assms(1)] have
    v: "hasValidInput e (store w)" and
    call: "summarize_call e (store w) = apiClient_send (summarize_backend e) req" by simp_all
  let ?t = "ToastError ''Request timeout. The operation is taking longer than expected. Please try again.''"
  have c: "summarize_call e (store w) = ([Request req, ?t], Inl (AxiosError err))"
    using apiClient_send_timed_out [of "summarize_backend e" req err] assms(2,3)
    by (simp add: call)
  have m: "summarize_error_message (AxiosError err)
             = ''Cannot connect to the backend server. Please ensure it is running on port 8000.''"
    using assms(3) by (simp add: summarize_error_message_def timed_out_def)
  from handleSummarize_failure(3) [OF v c] obtain pre where
    "events (handleSummarize e w) =
       events w @ pre @ [Request req, ?t]
         @ [ConsoleError ''Summarization error:'',
            ToastError (summarize_error_message (AxiosError err))]"
    "\<not> list_ex is_request pre" "\<not> list_ex is_error_toast pre" by blast
  then have "new_events w (handleSummarize e w) =
            pre @ [Request req, ?t, ConsoleError ''Summarization error:'',
                   ToastError ''Cannot connect to the backend server. Please ensure it is running on port 8000.'']
            \<and> \<not> list_ex is_request pre \<and> \<not> list_ex is_error_toast pre"
    by (simp add: m)
  then show ?thesis
    using handleSummarize_failure(1) [OF v c] by blast
qed

lemma handleAskQuestion_timed_out:
  assumes "Request req \<in> set (new_events w (handleAskQuestion e clk arg w))"
    and "qa_backend e req = Inl err" and "timed_out err"
  shows "new_events w (handleAskQuestion e clk arg w) =
           [Request req,
            ToastError ''Request timeout. The operation is taking longer than expected. Please try again.'',
            ToastError ''Failed to get answer. Please try again.'']
         \<and> store (handleAskQuestion e clk arg w) = store w
         \<and> isAsking (handleAskQuestion e clk arg w) = False"
proof -
  have no: "Request req \<notin> set (fst (response_interceptor x))" for x
    using response_interceptor_no_request [of x]
    by (auto simp: list_ex_iff is_request_def)
  have t: "fst (response_interceptor err) =
             [ToastError ''Request timeout. The operation is taking longer than expected. Please try again.'']"
    using assms(3) by (simp add: response_interceptor_def timed_out_def)
  show ?thesis
    using assms(1,2) no t
    by (auto simp: handleAskQuestion_def Let_def apiClient_send_def
        split: if_splits option.splits sum.splits)
qed

lemma client_request_timeout:
  "r \<in> client_requests \<Longrightarrow> request_timeout r = 600000 \<or> request_timeout r = 900000"
  by (erule client_requests.cases) (simp_all add: client_timeouts)

lemma summarize_call_client:
  "hasValidInput e s \<Longrightarrow> summarize_call e s = apiClient_send (summarize_backend e) r \<Longrightarrow>
   r \<in> client_requests"
  by (auto simp: hasValidInput_def summarize_call_def Let_def apiClient_send_def
      intro: client_requests.intros split: if_splits sum.splits)

text \<open>
  Claim C7. Every request that a method of \<open>summarizeAPI\<close>, \<open>qaAPI\<close> or \<open>exportAPI\<close>
  builds carries the client's timeout of 600000 ms, and the one for documents carries
  900000 ms. Whatever the server does, such a request settles no later than its timeout,
  and when the server has not replied by then it settles with the timeout error. That
  error reaches the caller: the client shows the timeout toast and rethrows it. A run of
  \<open>handleSummarize\<close> or \<open>handleAskQuestion\<close> whose request expires ends at the timeout
  with that toast and the handler's own error toast, stores nothing, and leaves the
  step at \<open>input\<close> with \<open>isLoading\<close> false, or \<open>isAsking\<close> false.
\<close>

theorem requests_time_out:
  "(request_timeout (summarizeText data) = 600000
    \<and> request_timeout (summarizeDocument fs options) = 900000
    \<and> request_timeout (summarizeUrl data) = 600000
    \<and> request_timeout (summarizeYoutube data) = 600000
    \<and> request_timeout (summarizeMultilingual data) = 600000
    \<and> request_timeout (askQuestion data) = 600000
    \<and> request_timeout (conversationalQA rq) = 600000
    \<and> request_timeout (batchQA questions ctx language) = 600000
    \<and> request_timeout (getSuggestedQuestions ctx numQuestions) = 600000
    \<and> request_timeout (exportTxt data) = 600000
    \<and> request_timeout (exportDocx data) = 600000
    \<and> request_timeout (exportPdf data) = 600000
    \<and> request_timeout (generateTTS data) = 600000
    \<and> request_timeout getSupportedLanguages = 600000
    \<and> request_timeout (batchExport data) = 600000)
   \<and> (r \<in> client_requests \<longrightarrow>
        (\<exists>t outcome. axios_settles (request_timeout r) reply = Some (t, outcome)
            \<and> t \<le> request_timeout r \<and> request_timeout r \<le> 900000))
   \<and> (r \<in> client_requests
        \<and> (reply = NeverReplies
            \<or> (\<exists>d outcome. reply = RepliesAfter d outcome \<and> request_timeout r < d))
        \<and> axios_settles (request_timeout r) reply = Some (t, backend r) \<longrightarrow>
        t = request_timeout r
        \<and> timed_out timeout_error
        \<and> apiClient_send backend r =
            ([Request r,
              ToastError ''Request timeout. The operation is taking longer than expected. Please try again.''],
             Inl (AxiosError timeout_error)))
   \<and> (Request sreq \<in> set (new_events w (handleSummarize e w))
        \<and> (sreply = NeverReplies
            \<or> (\<exists>d outcome. sreply = RepliesAfter d outcome \<and> request_timeout sreq < d))
        \<and> axios_settles (request_timeout sreq) sreply = Some (st, summarize_backend e sreq) \<longrightarrow>
        st = request_timeout sreq
        \<and> (\<exists>pre. new_events w (handleSummarize e w) =
              pre @ [Request sreq,
                     ToastError ''Request timeout. The operation is taking longer than expected. Please try again.'',
                     ConsoleError ''Summarization error:'',
                     ToastError ''Cannot connect to the backend server. Please ensure it is running on port 8000.'']
              \<and> \<not> list_ex is_request pre \<and> \<not> list_ex is_error_toast pre)
        \<and> store (handleSummarize e w) = (store w)\<lparr>isLoading := False, currentStep := ''input''\<rparr>)
   \<and> (Request qreq \<in> set (new_events w (handleAskQuestion e clk arg w))
        \<and> (qreply = NeverReplies
            \<or> (\<exists>d outcome. qreply = RepliesAfter d outcome \<and> request_timeout qreq < d))
        \<and> axios_settles (request_timeout qreq) qreply = Some (qt, qa_backend e qreq) \<longrightarrow>
        qt = request_timeout qreq
        \<and> new_events w (handleAskQuestion e clk arg w) =
             [Request qreq,
              ToastError ''Request timeout. The operation is taking longer than expected. Please try again.'',
              ToastError ''Failed to get answer. Please try again.'']
        \<and> store (handleAskQuestion e clk arg w) = store w
        \<and> isAsking (handleAskQuestion e clk arg w) = False)"
proof -
  have expired: "t' = request_timeout r' \<and> answer = Inl timeout_error"
    if "r' \<in> client_requests"
      and "reply' = NeverReplies
           \<or> (\<exists>d outcome. reply' = RepliesAfter d outcome \<and> request_timeout r' < d)"
      and "axios_settles (request_timeout r') reply' = Some (t', answer)"
    for r' t' and reply' :: "'x server_reply" and answer :: "axios_error + 'x"
  proof -
    from client_request_timeout [OF that(1)] have "0 < request_timeout r'" by auto
    from axios_settles_expired [OF this that(2)] that(3) show ?thesis by simp
  qed
  have t: "timed_out timeout_error"
    by (simp add: timed_out_def timeout_error_def)
  have a: "r \<in> client_requests \<longrightarrow>
        (\<exists>t outcome. axios_settles (request_timeout r) reply = Some (t, outcome)
            \<and> t \<le> request_timeout r \<and> request_timeout r \<le> 900000)"
  proof
    assume r: "r \<in> client_requests"
    from client_request_timeout [OF r] have p: "0 < request_timeout r"
      and b: "request_timeout r \<le> 900000" by auto
    from axios_settles_in_time [OF p, of reply] b show
      "\<exists>t outcome. axios_settles (request_timeout r) reply = Some (t, outcome)
            \<and> t \<le> request_timeout r \<and> request_timeout r \<le> 900000" by blast
  qed
  have b: "r \<in> client_requests
        \<and> (reply = NeverReplies
            \<or> (\<exists>d outcome. reply = RepliesAfter d outcome \<and> request_timeout r < d))
        \<and> axios_settles (request_timeout r) reply = Some (t, backend r) \<longrightarrow>
        t = request_timeout r
        \<and> timed_out timeout_error
        \<and> apiClient_send backend r =
            ([Request r,
              ToastError ''Request timeout. The operation is taking longer than expected. Please try again.''],
             Inl (AxiosError timeout_error))"
    using expired [of r reply t "backend r"] t
      apiClient_send_timed_out [of backend r timeout_error]
    by auto
  have c: "Request sreq \<in> set (new_events w (handleSummarize e w))
        \<and> (sreply = NeverReplies
            \<or> (\<exists>d outcome. sreply = RepliesAfter d outcome \<and> request_timeout sreq < d))
        \<and> axios_settles (request_timeout sreq) sreply = Some (st, summarize_backend e sreq) \<longrightarrow>
        st = request_timeout sreq
        \<and> (\<exists>pre. new_events w (handleSummarize e w) =
              pre @ [Request sreq,
                     ToastError ''Request timeout. The operation is taking longer than expected. Please try again.'',
                     ConsoleError ''Summarization error:'',
                     ToastError ''Cannot connect to the backend server. Please ensure it is running on port 8000.'']
              \<and> \<not> list_ex is_request pre \<and> \<not> list_ex is_error_toast pre)
        \<and> store (handleSummarize e w) = (store w)\<lparr>isLoading := False, currentStep := ''input''\<rparr>"
  proof (intro impI, elim conjE)
    assume rq: "Request sreq \<in> set (new_events w (handleSummarize e w))"
      and late: "sreply = NeverReplies
            \<or> (\<exists>d outcome. sreply = RepliesAfter d outcome \<and> request_timeout sreq < d)"
      and settle: "axios_settles (request_timeout sreq) sreply = Some (st, summarize_backend e sreq)"
    from handleSummarize_request [OF rq] have "sreq \<in> client_requests"
      by (auto intro: summarize_call_client)
    from expired [OF this late settle] have
      st: "st = request_timeout sreq" and ans: "summarize_backend e sreq = Inl timeout_error"
      by simp_all
    from handleSummarize_timed_out [OF rq ans t] st show
      "st = request_timeout sreq
        \<and> (\<exists>pre. new_events w (handleSummarize e w) =
              pre @ [Request sreq,
                     ToastError ''Request timeout. The operation is taking longer than expected. Please try again.'',
                     ConsoleError ''Summarization error:'',
                     ToastError ''Cannot connect to the backend server. Please ensure it is running on port 8000.'']
              \<and> \<not> list_ex is_request pre \<and> \<not> list_ex is_error_toast pre)
        \<and> store (handleSummarize e w) = (store w)\<lparr>isLoading := False, currentStep := ''input''\<rparr>"
      by blast
  qed
  have d: "Request qreq \<in> set (new_events w (handleAskQuestion e clk arg w))
        \<and> (qreply = NeverReplies
            \<or> (\<exists>d outcome. qreply = RepliesAfter d outcome \<and> request_timeout qreq < d))
        \<and> axios_settles (request_timeout qreq) qreply = Some (qt, qa_backend e qreq) \<longrightarrow>
        qt = request_timeout qreq
        \<and> new_events w (handleAskQuestion e clk arg w) =
             [Request qreq,
              ToastError ''Request timeout. The operation is taking longer than expected. Please try again.'',
              ToastError ''Failed to get answer. Please try again.'']
        \<and> store (handleAskQuestion e clk arg w) = store w
        \<and> isAsking (handleAskQuestion e clk arg w) = False"
  proof (intro impI, elim conjE)
    assume rq: "Request qreq \<in> set (new_events w (handleAskQuestion e clk arg w))"
      and late: "qreply = NeverReplies
            \<or> (\<exists>d outcome. qreply = RepliesAfter d outcome \<and> request_timeout qreq < d)"
      and settle: "axios_settles (request_timeout qreq) qreply = Some (qt, qa_backend e qreq)"
    from handleAskQuestion_requests [OF rq] have "qreq \<in> client_requests"
      by (auto intro: client_requests.intros)
    from expired [OF this late settle] have
      qt: "qt = request_timeout qreq" and ans: "qa_backend e qreq = Inl timeout_error"
      by simp_all
    from handleAskQuestion_timed_out [OF rq ans t] qt show
      "qt = request_timeout qreq
        \<and> new_events w (handleAskQuestion e clk arg w) =
             [Request qreq,
              ToastError ''Request timeout. The operation is taking longer than expected. Please try again.'',
              ToastError ''Failed to get answer. Please try again.'']
        \<and> store (handleAskQuestion e clk arg w) = store w
        \<and> isAsking (handleAskQuestion e clk arg w) = False"
      by blast
  qed
  show ?thesis
    using a b c d by (simp only: client_timeouts)
qed

theorem requests_time_out_witness:
  "Request typed_request \<in> set (new_events typed_world (handleSummarize timeout_env typed_world))
   \<and> request_timeout typed_request = 600000
   \<and> axios_settles (request_timeout typed_request) NeverReplies
        = Some (600000, summarize_backend timeout_env typed_request)
   \<and> new_events typed_world (handleSummarize timeout_env typed_world) =
        [Request typed_request,
         ToastError ''Request timeout. The operation is taking longer than expected. Please try again.'',
         ConsoleError ''Summarization error:'',
         ToastError ''Cannot connect to the backend server. Please ensure it is running on port 8000.'']
   \<and> summaryResults (store (handleSummarize timeout_env typed_world)) = None
   \<and> currentStep (store (handleSummarize timeout_env typed_world)) = ''input''
   \<and> isLoading (store (handleSummarize timeout_env typed_world)) = False"
proof -
  let ?t = "ToastError ''Request timeout. The operation is taking longer than expected. Please try again.''"
  have c: "summarize_call timeout_env (store typed_world)
             = ([Request typed_request, ?t], Inl (AxiosError timeout_error))"
    by (simp add: typed_world_call apiClient_send_def timeout_env_def response_interceptor_def
        timeout_error_def)
  have ev: "events (handleSummarize timeout_env typed_world)
             = events typed_world
               @ [Request typed_request, ?t, ConsoleError ''Summarization error:'',
                  ToastError ''Cannot connect to the backend server. Please ensure it is running on port 8000.'']"
    using c by (simp add: handleSummarize_def Let_def typed_world_valid typed_world_no_notice
        summarize_error_message_def timeout_error_def)
  then have ne: "new_events typed_world (handleSummarize timeout_env typed_world) =
        [Request typed_request, ?t, ConsoleError ''Summarization error:'',
         ToastError ''Cannot connect to the backend server. Please ensure it is running on port 8000.'']"
    by simp
  have rq: "Request typed_request
              \<in> set (new_events typed_world (handleSummarize timeout_env typed_world))"
    by (simp add: ne)
  have tm: "request_timeout typed_request = 600000"
    by (simp add: typed_request_def summarizeText_def client_defaults_def)
  have settle: "axios_settles (request_timeout typed_request) NeverReplies
        = Some (600000, summarize_backend timeout_env typed_request)"
    by (simp add: tm axios_settles_def timeout_env_def)
  have s: "summaryResults (store typed_world) = None"
    by (simp add: typed_world_def initial_world_def initial_store_def)
  note run = requests_time_out
    [where sreq = typed_request and w = typed_world and e = timeout_env
       and sreply = NeverReplies and st = 600000,
     THEN conjunct2, THEN conjunct2, THEN conjunct2, THEN conjunct1]
  from run rq settle have
    "store (handleSummarize timeout_env typed_world)
       = (store typed_world)\<lparr>isLoading := False, currentStep := ''input''\<rparr>"
    by simp
  then show ?thesis
    using rq tm settle ne s by simp
qed

subsection \<open>Chunking\<close>

lemma remove_overlaps_chunks_from:
  "olap < B \<Longrightarrow> ov \<le> olap \<Longrightarrow> remove_overlaps (chunks_from pol B olap i ov xs) = drop ov xs"
proof (induction pol B olap i ov xs rule: chunks_from.induct)
  case (1 pol B olap i ov xs)
  show ?case
  proof (cases "length xs \<le> B \<or> B \<le> olap")
    case True
    then show ?thesis
      by (simp add: remove_overlaps_def chunks_from.simps [of pol B olap i ov xs])
  next
    case False
    let ?cut = "choose_cut pol B olap xs"
    from "1.prems" choose_cut_bounds [of olap B pol xs]
    have cut: "olap < ?cut" "?cut \<le> B" by simp_all
    from "1.IH" [OF False "1.prems"(1)]
    have ih: "remove_overlaps (chunks_from pol B olap (Suc i) olap (drop (?cut - olap) xs))
              = drop olap (drop (?cut - olap) xs)"
      by simp
    have "remove_overlaps (chunks_from pol B olap i ov xs)
            = drop ov (take ?cut xs)
              @ remove_overlaps (chunks_from pol B olap (Suc i) olap (drop (?cut - olap) xs))"
      using False by (simp add: remove_overlaps_def chunks_from.simps [of pol B olap i ov xs])
    also have "\<dots> = drop ov (take ?cut xs) @ drop ?cut xs"
      using cut by (simp add: ih)
    also have "\<dots> = drop ov xs"
    proof -
      have "drop ov (take ?cut xs @ drop ?cut xs)
              = drop ov (take ?cut xs) @ drop (ov - length (take ?cut xs)) (drop ?cut xs)"
        by (rule drop_append)
      moreover have "ov - length (take ?cut xs) = 0"
        using cut "1.prems" False by simp
      ultimately show ?thesis by simp
    qed
    finally show ?thesis .
  qed
qed

text \<open>
  The chunks are numbered in order, none is longer than the budget, and a text within
  the budget is one chunk without overlap.
\<close>

lemma ordinal_index_chunks_from:
  "map ordinal_index (chunks_from pol B olap i ov xs)
     = [i..<i + length (chunks_from pol B olap i ov xs)]"
proof (induction pol B olap i ov xs rule: chunks_from.induct)
  case (1 pol B olap i ov xs)
  show ?case
  proof (cases "length xs \<le> B \<or> B \<le> olap")
    case True
    then show ?thesis by (simp add: chunks_from.simps [of pol B olap i ov xs])
  next
    case False
    let ?rest = "chunks_from pol B olap (Suc i) olap (drop (choose_cut pol B olap xs - olap) xs)"
    have ih: "map ordinal_index ?rest = [Suc i..<i + Suc (length ?rest)]"
      using "1.IH" [OF False] by simp
    have "[i..<i + Suc (length ?rest)] = i # [Suc i..<i + Suc (length ?rest)]"
      by (rule upt_conv_Cons) simp
    moreover have "chunks_from pol B olap i ov xs
        = \<lparr> ordinal_index = i, text_span = take (choose_cut pol B olap xs) xs,
            overlap_with_previous = ov \<rparr> # ?rest"
      using False by (simp add: chunks_from.simps [of pol B olap i ov xs])
    ultimately show ?thesis
      using ih by (simp del: upt_Suc)
  qed
qed

lemma chunks_within_budget:
  "olap < B \<Longrightarrow> list_all (\<lambda>c. length (text_span c) \<le> B) (chunks_from pol B olap i ov xs)"
proof (induction pol B olap i ov xs rule: chunks_from.induct)
  case (1 pol B olap i ov xs)
  show ?case
  proof (cases "length xs \<le> B \<or> B \<le> olap")
    case True
    with "1.prems" show ?thesis by (simp add: chunks_from.simps [of pol B olap i ov xs])
  next
    case False
    from "1.IH" [OF False "1.prems"] False choose_cut_bounds [OF "1.prems", of pol xs]
    show ?thesis
      by (simp add: chunks_from.simps [of pol B olap i ov xs])
  qed
qed

lemma short_text_one_chunk:
  "t \<noteq> [] \<Longrightarrow> length t \<le> B \<Longrightarrow>
   chunk_text pol B olap t
     = Inr [\<lparr> ordinal_index = 0, text_span = t, overlap_with_previous = 0 \<rparr>]"
  by (simp add: chunk_text_def chunks_from.simps [of pol B olap 0 0 t])

text \<open>
  Claim C8, for the chunker of the specification. For a text that is not empty (an empty
  one is rejected) and an overlap smaller than the budget (the invariant of the data
  model), the chunker returns chunks in order, numbered from 0, and removing their
  overlaps and concatenating them gives the text back. The chunks are a function of the
  text, the budget and the overlap: equal triples give the same chunks, so the same
  count and boundaries.
\<close>

theorem chunks_reconstruct_text:
  assumes "olap < B" and "t \<noteq> []"
  shows "(\<exists>cs. chunk_text pol B olap t = Inr cs
            \<and> map ordinal_index cs = [0..<length cs]
            \<and> remove_overlaps cs = t)
         \<and> (\<forall>t' B' olap'. t' = t \<and> B' = B \<and> olap' = olap \<longrightarrow>
               chunk_text pol B' olap' t' = chunk_text pol B olap t)"
  using assms ordinal_index_chunks_from [of pol B olap 0 0 t]
  by (simp add: chunk_text_def remove_overlaps_chunks_from)

theorem chunks_reconstruct_text_witness:
  "(2::nat) < 8 \<and> ''Hi all. Go on. Done now.'' \<noteq> []
   \<and> chunk_text sentence_policy 8 2 ''Hi all. Go on. Done now.''
       = Inr [\<lparr> ordinal_index = 0, text_span = ''Hi all.'', overlap_with_previous = 0 \<rparr>,
              \<lparr> ordinal_index = 1, text_span = ''l. Go on'', overlap_with_previous = 2 \<rparr>,
              \<lparr> ordinal_index = 2, text_span = ''on. Done'', overlap_with_previous = 2 \<rparr>,
              \<lparr> ordinal_index = 3, text_span = ''ne now.'', overlap_with_previous = 2 \<rparr>]
   \<and> remove_overlaps
         [\<lparr> ordinal_index = 0, text_span = ''Hi all.'', overlap_with_previous = 0 \<rparr>,
          \<lparr> ordinal_index = 1, text_span = ''l. Go on'', overlap_with_previous = 2 \<rparr>,
          \<lparr> ordinal_index = 2, text_span = ''on. Done'', overlap_with_previous = 2 \<rparr>,
          \<lparr> ordinal_index = 3, text_span = ''ne now.'', overlap_with_previous = 2 \<rparr>]
       = ''Hi all. Go on. Done now.''"
proof -
  have b: "(2::nat) < 8" by simp
  have n: "''Hi all. Go on. Done now.'' \<noteq> []" by simp
  have c: "chunk_text sentence_policy 8 2 ''Hi all. Go on. Done now.''
       = Inr [\<lparr> ordinal_index = 0, text_span = ''Hi all.'', overlap_with_previous = 0 \<rparr>,
              \<lparr> ordinal_index = 1, text_span = ''l. Go on'', overlap_with_previous = 2 \<rparr>,
              \<lparr> ordinal_index = 2, text_span = ''on. Done'', overlap_with_previous = 2 \<rparr>,
              \<lparr> ordinal_index = 3, text_span = ''ne now.'', overlap_with_previous = 2 \<rparr>]"
    by code_simp
  from chunks_reconstruct_text [OF b n, of sentence_policy] c b n
  show ?thesis by auto
qed

end
